theory Spec2Isabelle
  imports Main "HOL-Library.AList"
begin

section \<open>Data model\<close>

text \<open>
  Identities (snowflakes) are JavaScript strings. A guild, a channel and a message are
  the objects the collector reads: \<open>guild.id\<close>, \<open>channel.id\<close>, \<open>channel.guild\<close>
  (absent for a direct-message channel), \<open>message.id\<close> and \<open>message.channel\<close>.
\<close>

type_synonym snowflake = string

record guild =
  guild_id :: snowflake

record channel =
  channel_id :: snowflake
  channel_guild :: "guild option"

record message =
  message_id :: snowflake
  message_channel :: channel

text \<open>
  \<open>MessageCollectorOptions\<close>: \<open>max\<close> and \<open>maxProcessed\<close> are numbers that may be
  absent (\<open>undefined\<close> is \<open>None\<close>); they are taken as integers. The caller's filter
  predicate is optional as well.
\<close>

record options =
  options_max :: "int option"
  options_maxProcessed :: "int option"
  options_filter :: "(message \<Rightarrow> bool) option"

text \<open>
  Modelled from the spec: the five event names of \<open>util/Constants\<close> (not among the
  sources), as five distinguishable event kinds.
\<close>

datatype event =
  MESSAGE_CREATE | MESSAGE_DELETE | MESSAGE_BULK_DELETE | CHANNEL_DELETE | GUILD_DELETE

text \<open>
  A listener is a function reference. The references a collector registers are its own
  (bound methods and a closure created by its constructor), so a reference is named by
  the instance that owns it and by the function it is.
\<close>

datatype handler =
  HandleCollect | HandleDispose | BulkDeleteListener | HandleChannelDeletion | HandleGuildDeletion

type_synonym listener = "nat \<times> handler"

text \<open>
  The client is the event source: the registry of its listeners, in registration order,
  and the listener budget (\<open>getMaxListeners()\<close>).
\<close>

record client =
  listeners :: "(event \<times> listener) list"
  maxListeners :: int

text \<open>
  The collector object. \<open>channel\<close> and \<open>received\<close> are the fields of
  \<open>MessageCollector\<close>; \<open>client\<close>, \<open>options\<close>, \<open>collected\<close> and \<open>ended\<close> are
  inherited from the base class. \<open>collected\<close> is an insertion-ordered map from message
  id to message, kept as an association list; \<open>collected.size\<close> is its length.
  \<open>end_once\<close> says whether the one-shot \<open>'end'\<close> listener of the constructor is
  still registered on the collector itself. The base class is not among the sources:
  \<open>ended\<close> and \<open>terminal_reason\<close> are the \<open>ended\<close> flag and the stored
  \<open>endReason\<close> of the spec's collection state, the terminal reason recorded when the
  collector stops (the getter of the source is \<open>endReason\<close> below). \<open>received\<close> is
  a count and \<open>self\<close> is the identity of the object.
\<close>

record collector =
  self :: nat
  client :: client
  options :: options
  channel :: channel
  received :: nat
  collected :: "(snowflake \<times> message) list"
  ended :: bool
  terminal_reason :: "string option"
  end_once :: bool

section \<open>MessageCollector: collect, dispose, endReason\<close>

text \<open>
  \<open>collect(message)\<close>: a message of another channel gives \<open>null\<close>; otherwise
  \<open>this.received++\<close> and the message id is returned.
\<close>

definition collect :: "message \<Rightarrow> collector \<Rightarrow> snowflake option \<times> collector" where
  "collect m s =
     (if channel_id (message_channel m) \<noteq> channel_id (channel s) then (None, s)
      else (Some (message_id m), s\<lparr>received := received s + 1\<rparr>))"

text \<open>\<open>dispose(message)\<close>: a conditional expression; the object is returned as it was.\<close>

definition dispose :: "message \<Rightarrow> collector \<Rightarrow> snowflake option \<times> collector" where
  "dispose m s =
     (if channel_id (message_channel m) = channel_id (channel s) then Some (message_id m) else None, s)"

text \<open>
  JavaScript truthiness of an optional number, as the left operand of \<open>&&\<close>:
  \<open>undefined\<close> and \<open>0\<close> are falsy.
\<close>

definition truthy :: "int option \<Rightarrow> bool" where
  "truthy v = (case v of None \<Rightarrow> False | Some n \<Rightarrow> n \<noteq> 0)"

text \<open>
  A comparison \<open>size >= max\<close> or \<open>received === maxProcessed\<close> of a number with an
  option value; it is only reached with a truthy option.
\<close>

definition size_ge :: "nat \<Rightarrow> int option \<Rightarrow> bool" where
  "size_ge n v = (case v of None \<Rightarrow> False | Some k \<Rightarrow> k \<le> int n)"

definition strict_eq :: "nat \<Rightarrow> int option \<Rightarrow> bool" where
  "strict_eq n v = (case v of None \<Rightarrow> False | Some k \<Rightarrow> int n = k)"

text \<open>The \<open>endReason\<close> getter, with its two tests in the order of the source.\<close>

definition endReason :: "collector \<Rightarrow> string option" where
  "endReason s =
     (if truthy (options_max (options s)) \<and> size_ge (length (collected s)) (options_max (options s))
        then Some ''limit''
      else if truthy (options_maxProcessed (options s)) \<and>
              strict_eq (received s) (options_maxProcessed (options s))
        then Some ''processedLimit''
      else None)"

text \<open>\<open>Map.prototype.delete\<close> on \<open>collected\<close>: what a disposal does to the map.\<close>

definition collected_delete :: "snowflake \<Rightarrow> collector \<Rightarrow> collector" where
  "collected_delete k s = s\<lparr>collected := AList.delete k (collected s)\<rparr>"

text \<open>A run of \<open>collect\<close> calls, one per message, threading the object.\<close>

fun collect_all :: "message list \<Rightarrow> collector \<Rightarrow> collector" where
  "collect_all [] s = s"
| "collect_all (m # ms) s = collect_all ms (snd (collect m s))"

text \<open>
  The conditions of the getter in words: the count limit applies when \<open>max\<close> is set
  (truthy) and \<open>collected.size\<close> has reached it; the processed limit applies when
  \<open>maxProcessed\<close> is set (truthy) and \<open>received\<close> is equal to it.
\<close>

definition max_applies :: "collector \<Rightarrow> bool" where
  "max_applies s =
     (case options_max (options s) of
        None \<Rightarrow> False
      | Some m \<Rightarrow> m \<noteq> 0 \<and> m \<le> int (length (collected s)))"

definition maxProcessed_applies :: "collector \<Rightarrow> bool" where
  "maxProcessed_applies s =
     (case options_maxProcessed (options s) of
        None \<Rightarrow> False
      | Some p \<Rightarrow> p \<noteq> 0 \<and> int (received s) = p)"

section \<open>The event source\<close>

text \<open>
  \<open>EventEmitter.on\<close> appends the listener to the registry; \<open>removeListener\<close> removes
  the most recently added registration of that listener for that event, if there is one.
\<close>

definition on :: "event \<Rightarrow> listener \<Rightarrow> client \<Rightarrow> client" where
  "on e l c = c\<lparr>listeners := listeners c @ [(e, l)]\<rparr>"

definition remove_last :: "'a \<Rightarrow> 'a list \<Rightarrow> 'a list" where
  "remove_last x xs = rev (remove1 x (rev xs))"

definition removeListener :: "event \<Rightarrow> listener \<Rightarrow> client \<Rightarrow> client" where
  "removeListener e l c = c\<lparr>listeners := remove_last (e, l) (listeners c)\<rparr>"

text \<open>
  Modelled from the spec: \<open>incrementMaxListeners()\<close> of the client (the client class
  is not among the sources), the listener-count-budget adjustment at construction: the
  budget goes up by one.
\<close>

definition incrementMaxListeners :: "client \<Rightarrow> client" where
  "incrementMaxListeners c = c\<lparr>maxListeners := maxListeners c + 1\<rparr>"

text \<open>
  Modelled from the spec: \<open>decrementMaxListeners()\<close> of the client (the client class
  is not among the sources), the listener-count-budget adjustment at teardown: the
  budget goes down by one.
\<close>

definition decrementMaxListeners :: "client \<Rightarrow> client" where
  "decrementMaxListeners c = c\<lparr>maxListeners := maxListeners c - 1\<rparr>"

section \<open>MessageCollector: constructor and teardown\<close>

text \<open>
  The body of the constructor after \<open>super(channel.client, options)\<close>: the argument
  \<open>this\<close> is the object as the base-class constructor (not among the sources) left it.
  The body stores the channel, resets \<open>received\<close>, raises the budget, registers the five
  listeners in the order of the source and registers the one-shot \<open>'end'\<close> listener.
\<close>

definition MessageCollector :: "collector \<Rightarrow> channel \<Rightarrow> collector" where
  "MessageCollector this ch =
     (let s = this\<lparr>channel := ch, received := 0\<rparr>;
          c = incrementMaxListeners (client s);
          c = on MESSAGE_CREATE (self s, HandleCollect) c;
          c = on MESSAGE_DELETE (self s, HandleDispose) c;
          c = on MESSAGE_BULK_DELETE (self s, BulkDeleteListener) c;
          c = on CHANNEL_DELETE (self s, HandleChannelDeletion) c;
          c = on GUILD_DELETE (self s, HandleGuildDeletion) c
      in s\<lparr>client := c, end_once := True\<rparr>)"

text \<open>The closure given to \<open>this.once('end', ...)\<close>.\<close>

definition end_listener :: "collector \<Rightarrow> collector" where
  "end_listener s =
     (let c = removeListener MESSAGE_CREATE (self s, HandleCollect) (client s);
          c = removeListener MESSAGE_DELETE (self s, HandleDispose) c;
          c = removeListener MESSAGE_BULK_DELETE (self s, BulkDeleteListener) c;
          c = removeListener CHANNEL_DELETE (self s, HandleChannelDeletion) c;
          c = removeListener GUILD_DELETE (self s, HandleGuildDeletion) c;
          c = decrementMaxListeners c
      in s\<lparr>client := c\<rparr>)"

text \<open>
  \<open>emit('end')\<close> on the collector: a listener registered with \<open>once\<close> is removed and
  then called.
\<close>

definition emit_end :: "collector \<Rightarrow> collector" where
  "emit_end s = (if end_once s then end_listener (s\<lparr>end_once := False\<rparr>) else s)"

text \<open>The listeners of the registry that belong to this collector, and the others.\<close>

definition own_listeners :: "collector \<Rightarrow> (event \<times> listener) list" where
  "own_listeners s = filter (\<lambda>(e, l). fst l = self s) (listeners (client s))"

definition foreign_listeners :: "collector \<Rightarrow> (event \<times> listener) list" where
  "foreign_listeners s = filter (\<lambda>(e, l). fst l \<noteq> self s) (listeners (client s))"

definition five_listeners :: "nat \<Rightarrow> (event \<times> listener) list" where
  "five_listeners i =
     [(MESSAGE_CREATE, (i, HandleCollect)), (MESSAGE_DELETE, (i, HandleDispose)),
      (MESSAGE_BULK_DELETE, (i, BulkDeleteListener)), (CHANNEL_DELETE, (i, HandleChannelDeletion)),
      (GUILD_DELETE, (i, HandleGuildDeletion))]"

text \<open>
  A collector is registered when its listeners in the registry are the five of the
  constructor, once each, and its one-shot \<open>'end'\<close> listener is in place.
\<close>

definition registered :: "collector \<Rightarrow> bool" where
  "registered s = (own_listeners s = five_listeners (self s) \<and> end_once s)"

section \<open>The collection engine\<close>

text \<open>
  Modelled from the spec: \<open>stop(reason)\<close> of the base class (not among the sources).
  If already ended it is a no-op; otherwise it sets \<open>ended\<close>, records the reason and
  emits \<open>'end'\<close>. Timers are not part of the model.
\<close>

definition stop :: "string \<Rightarrow> collector \<Rightarrow> collector" where
  "stop reason s =
     (if ended s then s
      else emit_end (s\<lparr>ended := True, terminal_reason := Some reason\<rparr>))"

text \<open>
  Modelled from the spec: \<open>handleDispose(item)\<close> of the base class (not among the
  sources). A call after \<open>ended\<close> is a no-op. Otherwise it calls \<open>dispose\<close>; if the
  result is an identity present in \<open>collected\<close>, the entry is removed.
\<close>

definition handleDispose :: "message \<Rightarrow> collector \<Rightarrow> collector" where
  "handleDispose m s =
     (if ended s then s
      else (case dispose m s of
              (None, s') \<Rightarrow> s'
            | (Some k, s') \<Rightarrow>
                if k \<in> fst ` set (collected s') then collected_delete k s' else s'))"

text \<open>
  Modelled from the spec: \<open>handleCollect(item)\<close> of the base class (not among the
  sources). A call after \<open>ended\<close> is a no-op. Otherwise it calls \<open>collect\<close>; on
  \<open>null\<close> the item is ignored; an item the filter rejects is seen but not accepted;
  an accepted item is inserted under its identity, and then \<open>endReason\<close> is read and
  a reason found there stops the collector. The processed counter of the engine and the
  \<open>received\<close> counter of \<open>collect\<close> are one counter.
\<close>

definition handleCollect :: "message \<Rightarrow> collector \<Rightarrow> collector" where
  "handleCollect m s =
     (if ended s then s
      else (case collect m s of
              (None, s') \<Rightarrow> s'
            | (Some k, s') \<Rightarrow>
                if (case options_filter (options s') of None \<Rightarrow> False | Some f \<Rightarrow> \<not> f m) then s'
                else (let s'' = s'\<lparr>collected := AList.update k m (collected s')\<rparr>
                      in case endReason s'' of None \<Rightarrow> s'' | Some reason \<Rightarrow> stop reason s'')))"

section \<open>MessageCollector: deletion listeners\<close>

text \<open>
  The three listeners call methods of the base class; the called method is an argument
  (\<open>stp\<close> for \<open>this.stop\<close>, \<open>dsp\<close> for \<open>this.handleDispose\<close>). The payload of a bulk
  deletion is a collection of messages, read through \<open>values()\<close> in its order.
\<close>

definition bulkDeleteListener :: "(message \<Rightarrow> 's \<Rightarrow> 's) \<Rightarrow> message list \<Rightarrow> 's \<Rightarrow> 's" where
  "bulkDeleteListener dsp messages s = fold dsp messages s"

definition handleChannelDeletion ::
  "(string \<Rightarrow> collector \<Rightarrow> collector) \<Rightarrow> channel \<Rightarrow> collector \<Rightarrow> collector" where
  "handleChannelDeletion stp ch s =
     (if channel_id ch = channel_id (channel s) then stp ''channelDelete'' s else s)"

text \<open>
  \<open>this.channel.guild?.id\<close> is \<open>undefined\<close> without a guild; a guild id is a string,
  so the strict equality fails then.
\<close>

definition handleGuildDeletion ::
  "(string \<Rightarrow> collector \<Rightarrow> collector) \<Rightarrow> guild \<Rightarrow> collector \<Rightarrow> collector" where
  "handleGuildDeletion stp g s =
     (if Some (guild_id g) = map_option guild_id (channel_guild (channel s))
      then stp ''guildDelete'' s else s)"

text \<open>The ids of the messages of a payload that belong to the target channel.\<close>

definition in_channel_ids :: "collector \<Rightarrow> message list \<Rightarrow> snowflake list" where
  "in_channel_ids s ms =
     map message_id (filter (\<lambda>m. channel_id (message_channel m) = channel_id (channel s)) ms)"

section \<open>RoleManager\<close>

text \<open>
  A raw role object of the API has an id. The manager holds its guild and the role cache,
  a collection from role id to role; the role objects are of any type \<open>'r\<close>.
\<close>

record role_data =
  role_data_id :: snowflake

record 'r manager =
  manager_guild :: guild
  cache :: "(snowflake \<times> 'r) list"

text \<open>
  What the promise of \<open>fetch\<close> resolves to: a role, a collection of roles, or
  \<open>null\<close>. A rejected promise is the left summand of the result.
\<close>

datatype 'r fetched = Role 'r | Roles "(snowflake \<times> 'r) list" | Null

text \<open>
  \<open>add(data, cache)\<close> passes its arguments and the guild to \<open>super.add\<close>. The base
  manager is not among the sources, so \<open>super.add\<close> is an argument: it gives the role
  object and the manager after it.
\<close>

type_synonym 'r super_add = "role_data \<Rightarrow> bool \<Rightarrow> guild list \<Rightarrow> 'r manager \<Rightarrow> 'r \<times> 'r manager"

definition add :: "'r super_add \<Rightarrow> role_data \<Rightarrow> bool \<Rightarrow> 'r manager \<Rightarrow> 'r \<times> 'r manager" where
  "add super_add data cache_flag mgr = super_add data cache_flag [manager_guild mgr] mgr"

text \<open>
  Truthiness of the optional \<open>id\<close> argument: \<open>undefined\<close> and the empty string are
  falsy. \<open>Collection.get\<close> gives \<open>undefined\<close> for a key that is not there; a role
  object is truthy.
\<close>

definition id_truthy :: "snowflake option \<Rightarrow> bool" where
  "id_truthy v = (case v of None \<Rightarrow> False | Some i \<Rightarrow> i \<noteq> [])"

definition collection_get :: "(snowflake \<times> 'r) list \<Rightarrow> snowflake option \<Rightarrow> 'r option" where
  "collection_get al v = (case v of None \<Rightarrow> None | Some i \<Rightarrow> map_of al i)"

text \<open>The loop \<open>for (const role of data) roles.set(role.id, this.add(role, cache))\<close>.\<close>

fun add_roles ::
  "'r super_add \<Rightarrow> bool \<Rightarrow> role_data list \<Rightarrow> (snowflake \<times> 'r) list \<Rightarrow> 'r manager
   \<Rightarrow> (snowflake \<times> 'r) list \<times> 'r manager" where
  "add_roles super_add cache_flag [] roles mgr = (roles, mgr)"
| "add_roles super_add cache_flag (role # data) roles mgr =
     (case add super_add role cache_flag mgr of
        (r, mgr') \<Rightarrow> add_roles super_add cache_flag data (AList.update (role_data_id role) r roles) mgr')"

text \<open>
  The request and what follows it. The answer of the API for the guild is an argument:
  the data, or the error the awaited promise rejects with. The second component of the
  result counts the API requests made.
\<close>

definition fetch_request ::
  "'r super_add \<Rightarrow> (snowflake \<Rightarrow> 'e + role_data list) \<Rightarrow> snowflake option \<Rightarrow> bool \<Rightarrow> 'r manager
   \<Rightarrow> ('e + 'r fetched) \<times> nat \<times> 'r manager" where
  "fetch_request super_add api ident cache_flag mgr =
     (case api (guild_id (manager_guild mgr)) of
        Inl e \<Rightarrow> (Inl e, 1, mgr)
      | Inr data \<Rightarrow>
          (case add_roles super_add cache_flag data [] mgr of
             (roles, mgr') \<Rightarrow>
               (Inr (if id_truthy ident
                     then (case collection_get roles ident of Some r \<Rightarrow> Role r | None \<Rightarrow> Null)
                     else Roles roles), 1, mgr')))"

text \<open>\<open>fetch(id, cache, force)\<close>: the cache is asked first when an id is given and \<open>force\<close> is false.\<close>

definition fetch ::
  "'r super_add \<Rightarrow> (snowflake \<Rightarrow> 'e + role_data list) \<Rightarrow> snowflake option \<Rightarrow> bool \<Rightarrow> bool
   \<Rightarrow> 'r manager \<Rightarrow> ('e + 'r fetched) \<times> nat \<times> 'r manager" where
  "fetch super_add api ident cache_flag force mgr =
     (if id_truthy ident \<and> \<not> force then
        (case collection_get (cache mgr) ident of
           Some existing \<Rightarrow> (Inr (Role existing), 0, mgr)
         | None \<Rightarrow> fetch_request super_add api ident cache_flag mgr)
      else fetch_request super_add api ident cache_flag mgr)"

section \<open>Example objects\<close>

definition guild_G :: guild where
  "guild_G = \<lparr>guild_id = ''G''\<rparr>"

definition channel_C :: channel where
  "channel_C = \<lparr>channel_id = ''C'', channel_guild = Some guild_G\<rparr>"

definition channel_D :: channel where
  "channel_D = \<lparr>channel_id = ''D'', channel_guild = Some guild_G\<rparr>"

definition channel_DM :: channel where
  "channel_DM = \<lparr>channel_id = ''C'', channel_guild = None\<rparr>"

definition msg :: "snowflake \<Rightarrow> channel \<Rightarrow> message" where
  "msg i c = \<lparr>message_id = i, message_channel = c\<rparr>"

definition client0 :: client where
  "client0 = \<lparr>listeners = [(MESSAGE_CREATE, (7, HandleCollect))], maxListeners = 10\<rparr>"

definition opts :: "int option \<Rightarrow> int option \<Rightarrow> options" where
  "opts mx mp = \<lparr>options_max = mx, options_maxProcessed = mp, options_filter = None\<rparr>"

definition state0 :: "options \<Rightarrow> channel \<Rightarrow> nat \<Rightarrow> (snowflake \<times> message) list \<Rightarrow> collector" where
  "state0 os c r col =
     \<lparr>self = 1, client = client0, options = os, channel = c, received = r,
      collected = col, ended = False, terminal_reason = None, end_once = False\<rparr>"

definition two_collected :: "(snowflake \<times> message) list" where
  "two_collected = [(''1'', msg ''1'' channel_C), (''2'', msg ''2'' channel_C)]"

definition both_limits_state :: collector where
  "both_limits_state = state0 (opts (Some 2) (Some 2)) channel_C 2 two_collected"

definition one_below_max :: collector where
  "one_below_max = state0 (opts (Some 3) (Some 5)) channel_C 2 two_collected"

definition running_C :: collector where
  "running_C = state0 (opts None None) channel_C 0 []"

definition running_DM :: collector where
  "running_DM = state0 (opts None None) channel_DM 0 []"

definition guild_H :: guild where
  "guild_H = \<lparr>guild_id = ''H''\<rparr>"

definition one_shot_base :: collector where
  "one_shot_base = state0 (opts (Some 1) None) channel_D 9 []"

definition five_collected :: "(snowflake \<times> message) list" where
  "five_collected =
     [(''1'', msg ''1'' channel_C), (''2'', msg ''2'' channel_C), (''3'', msg ''3'' channel_C),
      (''4'', msg ''4'' channel_C), (''5'', msg ''5'' channel_C)]"

definition bulk_payload :: "message list" where
  "bulk_payload =
     [msg ''1'' channel_C, msg ''4'' channel_D, msg ''2'' channel_C, msg ''5'' channel_D,
      msg ''3'' channel_C]"

definition wrap_add :: "string super_add" where
  "wrap_add data cache_flag extras mgr =
     (''role-'' @ role_data_id data,
      if cache_flag then mgr\<lparr>cache := AList.update (role_data_id data) (''role-'' @ role_data_id data) (cache mgr)\<rparr>
      else mgr)"

definition two_roles :: "role_data list" where
  "two_roles = [\<lparr>role_data_id = ''10''\<rparr>, \<lparr>role_data_id = ''11''\<rparr>]"

definition api_two :: "snowflake \<Rightarrow> string + role_data list" where
  "api_two g = Inr two_roles"

definition manager0 :: "string manager" where
  "manager0 = \<lparr>manager_guild = guild_G, cache = [(''10'', ''cached-10'')]\<rparr>"

section \<open>The endReason getter\<close>

lemmas example_defs = state0_def opts_def two_collected_def msg_def channel_C_def channel_D_def
  channel_DM_def guild_G_def client0_def

lemma endReason_unfold:
  "endReason s =
     (case options_max (options s) of
        None \<Rightarrow> (case options_maxProcessed (options s) of
                   None \<Rightarrow> None
                 | Some p \<Rightarrow> if p \<noteq> 0 \<and> int (received s) = p then Some ''processedLimit'' else None)
      | Some m \<Rightarrow>
          if m \<noteq> 0 \<and> m \<le> int (length (collected s)) then Some ''limit''
          else (case options_maxProcessed (options s) of
                  None \<Rightarrow> None
                | Some p \<Rightarrow> if p \<noteq> 0 \<and> int (received s) = p then Some ''processedLimit'' else None))"
  by (simp add: endReason_def truthy_def size_ge_def strict_eq_def split: option.splits)

text \<open>
  C1. In every collector state the getter gives \<open>"limit"\<close> whenever \<open>max\<close> is set and
  \<open>collected.size >= max\<close>; it gives \<open>"processedLimit"\<close> exactly when that does not
  apply and \<open>maxProcessed\<close> is set with \<open>received === maxProcessed\<close>; it gives
  \<open>null\<close> exactly when neither applies. With \<open>max = 2\<close>, \<open>maxProcessed = 2\<close> and
  both conditions true at once the answer is \<open>"limit"\<close>.
\<close>

theorem endReason_limit_before_processedLimit:
  "(max_applies s \<longrightarrow> endReason s = Some ''limit'') \<and>
   (endReason s = Some ''processedLimit'' \<longleftrightarrow> \<not> max_applies s \<and> maxProcessed_applies s) \<and>
   (endReason s = None \<longleftrightarrow> \<not> max_applies s \<and> \<not> maxProcessed_applies s) \<and>
   (options_max (options s) = Some 2 \<and> options_maxProcessed (options s) = Some 2 \<and>
      2 \<le> length (collected s) \<and> received s = 2 \<longrightarrow> endReason s = Some ''limit'')"
  by (auto simp add: endReason_unfold max_applies_def maxProcessed_applies_def split: option.splits)

theorem endReason_limit_before_processedLimit_witness:
  "max_applies both_limits_state \<and> maxProcessed_applies both_limits_state \<and>
   endReason both_limits_state = Some ''limit''"
  using endReason_limit_before_processedLimit [of both_limits_state]
  by (simp add: max_applies_def maxProcessed_applies_def both_limits_state_def example_defs)

text \<open>
  C9. A \<open>max\<close> of 0 never gives \<open>"limit"\<close> and a \<open>maxProcessed\<close> of 0 never gives
  \<open>"processedLimit"\<close>, whatever \<open>collected.size\<close> and \<open>received\<close> are; with both
  options absent or zero the getter gives \<open>null\<close> in every state.
\<close>

theorem endReason_zero_options:
  "(options_max (options s) = Some 0 \<longrightarrow> endReason s \<noteq> Some ''limit'') \<and>
   (options_maxProcessed (options s) = Some 0 \<longrightarrow> endReason s \<noteq> Some ''processedLimit'') \<and>
   (options_max (options s) \<in> {None, Some 0} \<and> options_maxProcessed (options s) \<in> {None, Some 0}
      \<longrightarrow> endReason s = None)"
  by (auto simp add: endReason_unfold split: option.splits)

theorem endReason_zero_options_witness:
  "endReason (state0 (opts (Some 0) (Some 0)) channel_C 0 []) = None \<and>
   endReason (state0 (opts (Some 0) None) channel_C 0 []) \<noteq> Some ''limit'' \<and>
   endReason (state0 (opts (Some 5) (Some 0)) channel_C 0 []) \<noteq> Some ''processedLimit''"
  using endReason_zero_options [of "state0 (opts (Some 0) (Some 0)) channel_C 0 []"]
        endReason_zero_options [of "state0 (opts (Some 0) None) channel_C 0 []"]
        endReason_zero_options [of "state0 (opts (Some 5) (Some 0)) channel_C 0 []"]
  by (simp add: state0_def opts_def)

section \<open>The processed limit\<close>

lemma collect_options [simp]: "options (snd (collect m s)) = options s"
  by (simp add: collect_def)

lemma collect_received_mono: "received s \<le> received (snd (collect m s))"
  by (simp add: collect_def)

lemma collect_all_options [simp]: "options (collect_all ms s) = options s"
  by (induction ms arbitrary: s) simp_all

lemma collect_all_received_mono: "received s \<le> received (collect_all ms s)"
proof (induction ms arbitrary: s)
  case Nil
  show ?case by simp
next
  case (Cons m ms)
  have "received s \<le> received (snd (collect m s))" by (rule collect_received_mono)
  also have "\<dots> \<le> received (collect_all ms (snd (collect m s)))" by (rule Cons.IH)
  finally show ?case by simp
qed

lemma processedLimit_only_at_equality:
  "endReason s = Some ''processedLimit'' \<Longrightarrow> options_maxProcessed (options s) = Some (int (received s))"
  by (auto simp add: endReason_unfold split: option.splits if_splits)

text \<open>
  C2, as stated, fails: with \<open>max = 2\<close> and \<open>maxProcessed = 2\<close>, two collected messages
  and \<open>received = 2\<close>, the option \<open>maxProcessed\<close> is set and \<open>received === maxProcessed\<close>,
  but the getter gives \<open>"limit"\<close>, not \<open>"processedLimit"\<close>.
\<close>

theorem processedLimit_iff_equality_counterexample:
  "options_maxProcessed (options both_limits_state) = Some 2 \<and>
   \<not> (endReason both_limits_state = Some ''processedLimit'' \<longleftrightarrow>
        int (received both_limits_state) = 2)"
  by (simp add: endReason_unfold both_limits_state_def example_defs)

text \<open>
  C2, amended. In every state where \<open>maxProcessed\<close> is set, the getter gives
  \<open>"processedLimit"\<close> exactly when \<open>received === maxProcessed\<close> and the count limit
  does not apply. It does not give it when \<open>received\<close> exceeds \<open>maxProcessed\<close>, and
  from such a state no run of \<open>collect\<close> calls, with any content of \<open>collected\<close>, makes
  the getter give it: once skipped, the processed limit never triggers.
\<close>

theorem processedLimit_strict_equality:
  assumes "options_maxProcessed (options s) = Some p" and "p \<noteq> 0"
  shows "(endReason s = Some ''processedLimit'' \<longleftrightarrow> int (received s) = p \<and> \<not> max_applies s) \<and>
         (p < int (received s) \<longrightarrow>
            endReason s \<noteq> Some ''processedLimit'' \<and>
            (\<forall>ms c. endReason ((collect_all ms s)\<lparr>collected := c\<rparr>) \<noteq> Some ''processedLimit''))"
proof (intro conjI impI allI)
  show "endReason s = Some ''processedLimit'' \<longleftrightarrow> int (received s) = p \<and> \<not> max_applies s"
    using assms by (auto simp add: endReason_unfold max_applies_def split: option.splits)
next
  assume gt: "p < int (received s)"
  then show "endReason s \<noteq> Some ''processedLimit''"
    using assms processedLimit_only_at_equality [of s] by auto
next
  fix ms c
  assume gt: "p < int (received s)"
  let ?t = "(collect_all ms s)\<lparr>collected := c\<rparr>"
  have "received s \<le> received ?t" using collect_all_received_mono [of s ms] by simp
  with gt have "p < int (received ?t)" by linarith
  moreover have "options_maxProcessed (options ?t) = Some p" using assms by simp
  ultimately show "endReason ?t \<noteq> Some ''processedLimit''"
    using processedLimit_only_at_equality [of ?t] by auto
qed

theorem processedLimit_strict_equality_witness:
  "endReason (state0 (opts None (Some 2)) channel_C 2 []) = Some ''processedLimit'' \<and>
   endReason (state0 (opts None (Some 2)) channel_C 3 []) \<noteq> Some ''processedLimit'' \<and>
   endReason (collect_all [msg ''9'' channel_C] (state0 (opts None (Some 2)) channel_C 3 []))
     \<noteq> Some ''processedLimit''"
proof -
  let ?o = "opts None (Some 2)"
  let ?after = "collect_all [msg ''9'' channel_C] (state0 ?o channel_C 3 [])"
  have o: "options_maxProcessed (options (state0 ?o channel_C r [])) = Some 2" for r
    by (simp add: state0_def opts_def)
  have a: "endReason (state0 ?o channel_C 2 []) = Some ''processedLimit''"
    using processedLimit_strict_equality [OF o [of 2]]
    by (simp add: max_applies_def state0_def opts_def)
  have gt: "(2::int) < int (received (state0 ?o channel_C 3 []))"
    by (simp add: state0_def)
  have b: "endReason (state0 ?o channel_C 3 []) \<noteq> Some ''processedLimit''"
    using processedLimit_strict_equality [OF o [of 3]] gt by simp
  have "\<forall>ms c. endReason ((collect_all ms (state0 ?o channel_C 3 []))\<lparr>collected := c\<rparr>)
           \<noteq> Some ''processedLimit''"
    using processedLimit_strict_equality [OF o [of 3]] gt by simp
  then have "endReason (?after\<lparr>collected := collected ?after\<rparr>) \<noteq> Some ''processedLimit''"
    by (rule allE) (erule allE)
  then have c: "endReason ?after \<noteq> Some ''processedLimit''"
    by simp
  show ?thesis using a b c by simp
qed

section \<open>collect and dispose\<close>

text \<open>
  C3. For a message of the target channel \<open>collect\<close> returns the message id and
  \<open>received\<close> goes up by exactly one, nothing else changing; for any other message it
  returns \<open>null\<close> and the object, in particular \<open>received\<close> and \<open>collected\<close>, is
  unchanged.
\<close>

theorem collect_channel_scoped:
  "(channel_id (message_channel m) = channel_id (channel s) \<longrightarrow>
      collect m s = (Some (message_id m), s\<lparr>received := received s + 1\<rparr>) \<and>
      received (snd (collect m s)) = received s + 1 \<and>
      collected (snd (collect m s)) = collected s) \<and>
   (channel_id (message_channel m) \<noteq> channel_id (channel s) \<longrightarrow> collect m s = (None, s)) \<and>
   (fst (collect m s) = None \<longrightarrow> snd (collect m s) = s)"
  by (simp add: collect_def)

theorem collect_channel_scoped_witness:
  "collect (msg ''5'' channel_C) (state0 (opts None None) channel_C 3 []) =
     (Some ''5'', state0 (opts None None) channel_C 4 []) \<and>
   collect (msg ''5'' channel_D) (state0 (opts None None) channel_C 3 []) =
     (None, state0 (opts None None) channel_C 3 [])"
  using collect_channel_scoped [of "msg ''5'' channel_C" "state0 (opts None None) channel_C 3 []"]
        collect_channel_scoped [of "msg ''5'' channel_D" "state0 (opts None None) channel_C 3 []"]
  by (simp add: example_defs)

lemma endReason_collected_delete:
  "endReason s = None \<Longrightarrow> endReason (collected_delete k s) = None"
  using length_delete_le [of k "collected s"]
  by (auto simp add: endReason_unfold collected_delete_def split: option.splits if_splits)

text \<open>
  C4. \<open>dispose\<close> returns the message id exactly when the message is of the target
  channel and \<open>null\<close> exactly otherwise, and it leaves the object as it was: \<open>received\<close>
  and the value of the \<open>endReason\<close> getter are the same after it. Removing an entry
  from \<open>collected\<close>, which is all a disposal does, does not change \<open>received\<close> and never
  turns a \<open>null\<close> \<open>endReason\<close> into a reason.
\<close>

theorem dispose_no_side_effect:
  "(fst (dispose m s) = Some (message_id m) \<longleftrightarrow>
      channel_id (message_channel m) = channel_id (channel s)) \<and>
   (fst (dispose m s) = None \<longleftrightarrow>
      channel_id (message_channel m) \<noteq> channel_id (channel s)) \<and>
   snd (dispose m s) = s \<and>
   received (snd (dispose m s)) = received s \<and>
   endReason (snd (dispose m s)) = endReason s \<and>
   received (collected_delete k s) = received s \<and>
   (endReason s = None \<longrightarrow> endReason (collected_delete k s) = None)"
  by (simp add: dispose_def endReason_collected_delete) (simp add: collected_delete_def)

theorem dispose_no_side_effect_witness:
  "endReason one_below_max = None \<and>
   dispose (msg ''1'' channel_C) one_below_max = (Some ''1'', one_below_max) \<and>
   dispose (msg ''1'' channel_D) one_below_max = (None, one_below_max) \<and>
   endReason (collected_delete ''1'' one_below_max) = None"
proof -
  have n: "endReason one_below_max = None"
    by (simp add: endReason_unfold one_below_max_def example_defs)
  have a: "fst (dispose (msg ''1'' channel_C) one_below_max) = Some ''1''"
    using dispose_no_side_effect [of "msg ''1'' channel_C" one_below_max]
    by (simp add: one_below_max_def example_defs)
  have b: "fst (dispose (msg ''1'' channel_D) one_below_max) = None"
    using dispose_no_side_effect [of "msg ''1'' channel_D" one_below_max]
    by (simp add: one_below_max_def example_defs)
  have c: "snd (dispose m one_below_max) = one_below_max" for m
    using dispose_no_side_effect [of m one_below_max] by simp
  have d: "endReason (collected_delete ''1'' one_below_max) = None"
    using dispose_no_side_effect [of _ one_below_max "''1''"] n by simp
  show ?thesis using n a b c d by (simp add: prod_eq_iff)
qed

section \<open>Stopping\<close>

lemma stop_running:
  "\<not> ended s \<Longrightarrow> ended (stop r s) \<and> terminal_reason (stop r s) = Some r"
  by (simp add: stop_def emit_end_def end_listener_def Let_def)

lemma stop_ended [simp]: "ended s \<Longrightarrow> stop r s = s"
  by (simp add: stop_def)

text \<open>
  C5. The channel-deletion listener calls \<open>stop("channelDelete")\<close> when the id of the
  deleted channel is the id of the target channel and does nothing otherwise; the
  guild-deletion listener calls \<open>stop("guildDelete")\<close> when the target channel has a
  guild with the id of the deleted guild and does nothing otherwise, so never for a
  channel without a guild. On a running collector the listener ends the collector
  exactly on a match, with that reason; without a match the collector is left as it was.
\<close>

theorem deletion_listeners_stop_on_match:
  "handleChannelDeletion stp ch s =
     (if channel_id ch = channel_id (channel s) then stp ''channelDelete'' s else s) \<and>
   handleGuildDeletion stp g s =
     (case channel_guild (channel s) of
        None \<Rightarrow> s
      | Some g' \<Rightarrow> if guild_id g = guild_id g' then stp ''guildDelete'' s else s) \<and>
   (channel_guild (channel s) = None \<longrightarrow> handleGuildDeletion stp g s = s) \<and>
   (\<not> ended s \<longrightarrow>
      (ended (handleChannelDeletion stop ch s) \<longleftrightarrow> channel_id ch = channel_id (channel s)) \<and>
      (ended (handleGuildDeletion stop g s) \<longleftrightarrow>
         Some (guild_id g) = map_option guild_id (channel_guild (channel s))) \<and>
      (channel_id ch = channel_id (channel s) \<longrightarrow>
         terminal_reason (handleChannelDeletion stop ch s) = Some ''channelDelete'') \<and>
      (Some (guild_id g) = map_option guild_id (channel_guild (channel s)) \<longrightarrow>
         terminal_reason (handleGuildDeletion stop g s) = Some ''guildDelete''))"
  using stop_running [of s]
  by (auto simp add: handleChannelDeletion_def handleGuildDeletion_def split: option.splits)

theorem deletion_listeners_stop_on_match_witness:
  "\<not> ended running_C \<and>
   ended (handleChannelDeletion stop channel_C running_C) \<and>
   terminal_reason (handleChannelDeletion stop channel_C running_C) = Some ''channelDelete'' \<and>
   handleChannelDeletion stop channel_D running_C = running_C \<and>
   ended (handleGuildDeletion stop guild_G running_C) \<and>
   terminal_reason (handleGuildDeletion stop guild_G running_C) = Some ''guildDelete'' \<and>
   handleGuildDeletion stop guild_H running_C = running_C \<and>
   handleGuildDeletion stop guild_G running_DM = running_DM"
proof -
  have r: "\<not> ended running_C"
    by (simp add: running_C_def state0_def)
  have c: "channel_id channel_C = channel_id (channel running_C)"
          "channel_id channel_D \<noteq> channel_id (channel running_C)"
    by (simp_all add: running_C_def example_defs)
  have g: "Some (guild_id guild_G) = map_option guild_id (channel_guild (channel running_C))"
          "channel_guild (channel running_C) = Some guild_G"
          "guild_id guild_H \<noteq> guild_id guild_G"
          "channel_guild (channel running_DM) = None"
    by (simp_all add: running_C_def running_DM_def guild_H_def example_defs)
  note t1 = deletion_listeners_stop_on_match [of stop channel_C running_C guild_G]
  note t2 = deletion_listeners_stop_on_match [of stop channel_D running_C guild_H]
  note t3 = deletion_listeners_stop_on_match [of stop channel_D running_DM guild_G]
  have a1: "ended (handleChannelDeletion stop channel_C running_C)"
    using t1 r c(1) by blast
  have a2: "terminal_reason (handleChannelDeletion stop channel_C running_C) = Some ''channelDelete''"
    using t1 r c(1) by blast
  have a3: "handleChannelDeletion stop channel_D running_C = running_C"
    using t2 c(2) by presburger
  have b1: "ended (handleGuildDeletion stop guild_G running_C)"
    using t1 r g(1) by blast
  have b2: "terminal_reason (handleGuildDeletion stop guild_G running_C) = Some ''guildDelete''"
    using t1 r g(1) by blast
  have b3: "handleGuildDeletion stop guild_H running_C = running_C"
    using t2 g(2,3) by simp
  have b4: "handleGuildDeletion stop guild_G running_DM = running_DM"
    using t3 g(4) by blast
  show ?thesis
    using r a1 a2 a3 b1 b2 b3 b4 by blast
qed

lemma handleDispose_ended [simp]: "ended s \<Longrightarrow> handleDispose m s = s"
  by (simp add: handleDispose_def)

lemma handleCollect_ended [simp]: "ended s \<Longrightarrow> handleCollect m s = s"
  by (simp add: handleCollect_def)

lemma fold_id: "(\<And>x. f x s = s) \<Longrightarrow> fold f xs s = s"
  by (induction xs) simp_all






section \<open>Bulk deletion\<close>

lemma handleDispose_eq:
  "handleDispose m s =
     (if \<not> ended s \<and> channel_id (message_channel m) = channel_id (channel s)
      then collected_delete (message_id m) s else s)"
  by (simp add: handleDispose_def dispose_def collected_delete_def)

lemma filter_delete:
  "filter Q (AList.delete x xs) = filter (\<lambda>p. fst p \<noteq> x \<and> Q p) xs"
  by (induction xs) auto

lemma bulk_calls: "bulkDeleteListener (\<lambda>m calls. calls @ [m]) ms cs = cs @ ms"
  unfolding bulkDeleteListener_def by (induction ms arbitrary: cs) simp_all

lemma bulk_handleDispose:
  "\<not> ended s \<Longrightarrow>
   bulkDeleteListener handleDispose ms s =
     s\<lparr>collected := filter (\<lambda>(k, v). k \<notin> set (in_channel_ids s ms)) (collected s)\<rparr>"
  unfolding bulkDeleteListener_def
proof (induction ms arbitrary: s)
  case Nil
  then show ?case by (simp add: in_channel_ids_def)
next
  case (Cons m ms)
  show ?case
  proof (cases "channel_id (message_channel m) = channel_id (channel s)")
    case False
    with Cons show ?thesis by (simp add: handleDispose_eq in_channel_ids_def)
  next
    case True
    let ?s = "collected_delete (message_id m) s"
    have e: "\<not> ended ?s" using Cons.prems by (simp add: collected_delete_def)
    have i: "in_channel_ids ?s ms = in_channel_ids s ms"
      by (simp add: in_channel_ids_def collected_delete_def)
    have "fold handleDispose (m # ms) s = fold handleDispose ms ?s"
      using True Cons.prems by (simp add: handleDispose_eq)
    also have "\<dots> = ?s\<lparr>collected := filter (\<lambda>(k, v). k \<notin> set (in_channel_ids ?s ms)) (collected ?s)\<rparr>"
      by (rule Cons.IH [OF e])
    also have "\<dots> = s\<lparr>collected := filter (\<lambda>(k, v). k \<notin> set (in_channel_ids s (m # ms))) (collected s)\<rparr>"
      using True unfolding i
      by (simp add: collected_delete_def filter_delete in_channel_ids_def split_def)
    finally show ?thesis .
  qed
qed

text \<open>
  C6. The bulk-deletion listener calls \<open>handleDispose\<close> once per message of the
  payload, in its order. On a running collector the result is that exactly the entries
  of \<open>collected\<close> whose key is the id of a payload message of the target channel are
  removed; every other entry stays, in its place, and nothing else changes.
\<close>

theorem bulkDeleteListener_disposes_in_channel:
  "bulkDeleteListener (\<lambda>m calls. calls @ [m]) ms [] = ms \<and>
   (\<not> ended s \<longrightarrow>
      bulkDeleteListener handleDispose ms s =
        s\<lparr>collected := filter (\<lambda>(k, v). k \<notin> set (in_channel_ids s ms)) (collected s)\<rparr>)"
  using bulk_calls [of ms "[]"] bulk_handleDispose [of s ms] by simp

theorem bulkDeleteListener_disposes_in_channel_witness:
  "\<not> ended (state0 (opts None None) channel_C 5 five_collected) \<and>
   in_channel_ids (state0 (opts None None) channel_C 5 five_collected) bulk_payload = [''1'', ''2'', ''3''] \<and>
   bulkDeleteListener handleDispose bulk_payload (state0 (opts None None) channel_C 5 five_collected) =
     state0 (opts None None) channel_C 5 [(''4'', msg ''4'' channel_C), (''5'', msg ''5'' channel_C)]"
proof -
  let ?s = "state0 (opts None None) channel_C 5 five_collected"
  have e: "\<not> ended ?s" by (simp add: state0_def)
  have i: "in_channel_ids ?s bulk_payload = [''1'', ''2'', ''3'']"
    by (simp add: in_channel_ids_def bulk_payload_def example_defs)
  have "bulkDeleteListener handleDispose bulk_payload ?s =
        ?s\<lparr>collected := filter (\<lambda>(k, v). k \<notin> set (in_channel_ids ?s bulk_payload)) (collected ?s)\<rparr>"
    using bulkDeleteListener_disposes_in_channel [of bulk_payload ?s] e by blast
  then show ?thesis using e i by (simp add: state0_def five_collected_def)
qed

section \<open>Listener lifecycle\<close>

lemma filter_remove_last:
  "filter P (remove_last x xs) = remove_last x (filter P xs)"
proof -
  have "filter P (rev (remove1 x (rev xs))) = rev (filter P (remove1 x (rev xs)))"
    by (simp only: rev_filter)
  also have "\<dots> = rev (remove1 x (filter P (rev xs)))"
    by (simp only: filter_remove1)
  also have "\<dots> = rev (remove1 x (rev (filter P xs)))"
    by (simp only: rev_filter)
  finally show ?thesis by (simp only: remove_last_def)
qed

lemma remove_last_not_in:
  "x \<notin> set xs \<Longrightarrow> remove_last x xs = xs"
  by (simp add: remove_last_def remove1_idem)

lemma remove_last_append:
  "remove_last x (xs @ ys) = (if x \<in> set ys then xs @ remove_last x ys else remove_last x xs @ ys)"
  by (simp add: remove_last_def remove1_append)

lemma remove_last_Cons:
  "remove_last x (y # ys) = (if x \<in> set ys then y # remove_last x ys else if x = y then ys else y # ys)"
  using remove_last_append [of x "[y]" ys] by (simp add: remove_last_def remove1_idem)

lemma remove_last_Nil [simp]: "remove_last x [] = []"
  by (simp add: remove_last_def)

lemma listeners_MessageCollector:
  "listeners (client (MessageCollector this ch)) = listeners (client this) @ five_listeners (self this)"
  by (simp add: MessageCollector_def on_def incrementMaxListeners_def five_listeners_def Let_def)

lemma self_MessageCollector [simp]: "self (MessageCollector this ch) = self this"
  by (simp add: MessageCollector_def Let_def)

lemma own_five: "filter (\<lambda>(e, l). fst l = i) (five_listeners i) = five_listeners i"
  by (simp add: five_listeners_def)

lemma foreign_five: "filter (\<lambda>(e, l). fst l \<noteq> i) (five_listeners i) = []"
  by (simp add: five_listeners_def)

lemma construct_own:
  "own_listeners (MessageCollector this ch) = own_listeners this @ five_listeners (self this)"
  by (simp add: own_listeners_def listeners_MessageCollector own_five)

lemma construct_foreign:
  "foreign_listeners (MessageCollector this ch) = foreign_listeners this"
  by (simp add: foreign_listeners_def listeners_MessageCollector foreign_five)

lemma construct_budget:
  "maxListeners (client (MessageCollector this ch)) = maxListeners (client this) + 1"
  by (simp add: MessageCollector_def on_def incrementMaxListeners_def Let_def)

lemma end_listener_self [simp]: "self (end_listener s) = self s"
  by (simp add: end_listener_def Let_def)

lemma end_listener_own:
  "own_listeners s = five_listeners (self s) \<Longrightarrow> own_listeners (end_listener s) = []"
  unfolding own_listeners_def
  by (simp add: end_listener_def removeListener_def decrementMaxListeners_def Let_def
      filter_remove_last) (simp add: five_listeners_def remove_last_Cons)

lemma end_listener_foreign:
  "foreign_listeners (end_listener s) = foreign_listeners s"
  unfolding foreign_listeners_def
  by (simp add: end_listener_def removeListener_def decrementMaxListeners_def Let_def
      filter_remove_last remove_last_not_in)

lemma end_listener_budget:
  "maxListeners (client (end_listener s)) = maxListeners (client s) - 1"
  by (simp add: end_listener_def removeListener_def decrementMaxListeners_def Let_def)

lemma stop_registered:
  assumes "registered s" and "\<not> ended s"
  shows "own_listeners (stop r s) = []"
    and "foreign_listeners (stop r s) = foreign_listeners s"
    and "maxListeners (client (stop r s)) = maxListeners (client s) - 1"
    and "\<not> end_once (stop r s)"
proof -
  let ?t = "s\<lparr>ended := True, terminal_reason := Some r, end_once := False\<rparr>"
  have st: "stop r s = end_listener ?t"
    using assms by (simp add: stop_def emit_end_def registered_def)
  have o: "own_listeners ?t = five_listeners (self ?t)"
    using assms(1) by (simp add: registered_def own_listeners_def)
  show "own_listeners (stop r s) = []"
    unfolding st by (rule end_listener_own [OF o])
  show "foreign_listeners (stop r s) = foreign_listeners s"
    unfolding st by (simp add: end_listener_foreign) (simp add: foreign_listeners_def)
  show "maxListeners (client (stop r s)) = maxListeners (client s) - 1"
    unfolding st by (simp add: end_listener_budget)
  show "\<not> end_once (stop r s)"
    unfolding st by (simp add: end_listener_def Let_def)
qed

lemma construct_then_stop_client:
  assumes "\<not> ended this"
  shows "client (stop r (MessageCollector this ch)) = client this"
proof -
  let ?L = "listeners (client this)"
  have "\<not> ended (MessageCollector this ch)" "end_once (MessageCollector this ch)"
    using assms by (simp_all add: MessageCollector_def Let_def)
  then have "client (stop r (MessageCollector this ch))
      = client (end_listener (MessageCollector this ch))"
    by (simp add: stop_def emit_end_def end_listener_def Let_def)
  also have "\<dots> = client this"
    by (simp add: end_listener_def MessageCollector_def on_def removeListener_def
        incrementMaxListeners_def decrementMaxListeners_def Let_def remove_last_append remove_last_Cons)
  finally show ?thesis .
qed


lemma registered_frame:
  "client t = client s \<Longrightarrow> self t = self s \<Longrightarrow> end_once t = end_once s \<Longrightarrow>
   registered t = registered s"
  by (simp add: registered_def own_listeners_def)

lemma handleCollect_teardown:
  assumes "registered s" and "\<not> ended s" and "ended (handleCollect m s)"
  shows "own_listeners (handleCollect m s) = []"
proof (cases "channel_id (message_channel m) = channel_id (channel s)")
  case False
  with assms show ?thesis by (simp add: handleCollect_def collect_def)
next
  case True
  let ?s' = "s\<lparr>received := received s + 1\<rparr>"
  let ?s'' = "?s'\<lparr>collected := AList.update (message_id m) m (collected ?s')\<rparr>"
  have reg: "registered ?s''" using assms(1) registered_frame [of ?s'' s] by simp
  have run: "\<not> ended ?s''" using assms(2) by simp
  show ?thesis
  proof (cases "case options_filter (options s) of None \<Rightarrow> False | Some f \<Rightarrow> \<not> f m")
    case rejected: True
    with True assms show ?thesis by (simp add: handleCollect_def collect_def)
  next
    case accepted: False
    show ?thesis
    proof (cases "endReason ?s''")
      case None
      with True accepted assms show ?thesis
        by (simp add: handleCollect_def collect_def Let_def)
    next
      case (Some reason)
      with True accepted assms(2) have "handleCollect m s = stop reason ?s''"
        by (simp add: handleCollect_def collect_def Let_def)
      then show ?thesis using stop_registered(1) [OF reg run] by simp
    qed
  qed
qed

text \<open>
  C7. On an object that has none of its listeners registered and is not ended, the
  constructor registers exactly five listeners of the instance (message create, message
  delete, bulk delete, channel delete, guild delete), leaves the listeners of others
  alone and raises the budget by one. A \<open>stop\<close> for any reason right after it gives the
  client back as it was. On every registered running collector, a \<open>stop\<close> for any
  reason leaves no listener of the instance, leaves the listeners of others alone and
  lowers the budget by one; a second \<open>stop\<close> changes nothing; and when
  \<open>handleCollect\<close> ends the collector, no listener of the instance is left.
\<close>

theorem listener_lifecycle:
  assumes "own_listeners this = []" and "\<not> ended this"
  shows "own_listeners (MessageCollector this ch) = five_listeners (self this) \<and>
         length (own_listeners (MessageCollector this ch)) = 5 \<and>
         foreign_listeners (MessageCollector this ch) = foreign_listeners this \<and>
         maxListeners (client (MessageCollector this ch)) = maxListeners (client this) + 1 \<and>
         registered (MessageCollector this ch) \<and>
         own_listeners (stop r (MessageCollector this ch)) = [] \<and>
         client (stop r (MessageCollector this ch)) = client this \<and>
         (\<forall>s. registered s \<and> \<not> ended s \<longrightarrow>
            own_listeners (stop r s) = [] \<and>
            foreign_listeners (stop r s) = foreign_listeners s \<and>
            maxListeners (client (stop r s)) = maxListeners (client s) - 1 \<and>
            stop r' (stop r s) = stop r s \<and>
            (ended (handleCollect m s) \<longrightarrow> own_listeners (handleCollect m s) = []))"
proof -
  let ?c = "MessageCollector this ch"
  have own: "own_listeners ?c = five_listeners (self this)"
    using assms(1) by (simp add: construct_own)
  have reg: "registered ?c"
    using own by (simp add: registered_def) (simp add: MessageCollector_def Let_def)
  have run: "\<not> ended ?c"
    using assms(2) by (simp add: MessageCollector_def Let_def)
  have general: "own_listeners (stop r s) = [] \<and>
      foreign_listeners (stop r s) = foreign_listeners s \<and>
      maxListeners (client (stop r s)) = maxListeners (client s) - 1 \<and>
      stop r' (stop r s) = stop r s \<and>
      (ended (handleCollect m s) \<longrightarrow> own_listeners (handleCollect m s) = [])"
    if "registered s \<and> \<not> ended s" for s
  proof -
    from that have a: "registered s" and b: "\<not> ended s" by simp_all
    have "ended (stop r s)" using b by (simp add: stop_running)
    then have "stop r' (stop r s) = stop r s" by simp
    then show ?thesis
      using stop_registered(1-3) [OF a b] handleCollect_teardown [OF a b] by simp
  qed
  show ?thesis
    using own reg construct_foreign [of this ch] construct_budget [of this ch]
      stop_registered(1) [OF reg run] construct_then_stop_client [OF assms(2)] general
    by (simp add: five_listeners_def)
qed

theorem listener_lifecycle_witness:
  "own_listeners one_shot_base = [] \<and> \<not> ended one_shot_base \<and>
   own_listeners (MessageCollector one_shot_base channel_C) = five_listeners 1 \<and>
   maxListeners (client (MessageCollector one_shot_base channel_C)) = 11 \<and>
   own_listeners (stop ''time'' (MessageCollector one_shot_base channel_C)) = [] \<and>
   client (stop ''time'' (MessageCollector one_shot_base channel_C)) = client0 \<and>
   ended (handleCollect (msg ''1'' channel_C) (MessageCollector one_shot_base channel_C)) \<and>
   own_listeners (handleCollect (msg ''1'' channel_C) (MessageCollector one_shot_base channel_C)) = []"
proof -
  let ?c = "MessageCollector one_shot_base channel_C"
  have f: "own_listeners one_shot_base = []"
    by (simp add: own_listeners_def one_shot_base_def state0_def client0_def)
  have e: "\<not> ended one_shot_base"
    by (simp add: one_shot_base_def state0_def)
  note t = listener_lifecycle [OF f e, of channel_C "''time''" "''user''" "msg ''1'' channel_C"]
  have s: "self one_shot_base = 1" "client one_shot_base = client0"
    by (simp_all add: one_shot_base_def state0_def)
  have b: "maxListeners client0 + 1 = 11" by (simp add: client0_def)
  have run: "\<not> ended ?c" using e by (simp add: MessageCollector_def Let_def)
  have lim: "ended (handleCollect (msg ''1'' channel_C) ?c)"
    by (simp add: handleCollect_def collect_def endReason_unfold MessageCollector_def Let_def
        stop_def emit_end_def end_listener_def one_shot_base_def example_defs)
  from t have reg: "registered ?c" by blast
  from t have "registered ?c \<and> \<not> ended ?c \<longrightarrow>
      (ended (handleCollect (msg ''1'' channel_C) ?c) \<longrightarrow>
       own_listeners (handleCollect (msg ''1'' channel_C) ?c) = [])" by blast
  with reg run lim have z: "own_listeners (handleCollect (msg ''1'' channel_C) ?c) = []" by blast
  show ?thesis using f e t s b lim z by simp
qed

section \<open>RoleManager: fetch\<close>

lemma add_roles_keys:
  "fst ` set (fst (add_roles sa cf data roles mgr)) = fst ` set roles \<union> role_data_id ` set data"
proof (induction data arbitrary: roles mgr)
  case Nil
  show ?case by simp
next
  case (Cons role data)
  obtain r mgr' where a: "add sa role cf mgr = (r, mgr')" by (cases "add sa role cf mgr")
  show ?case
    using Cons.IH [of "AList.update (role_data_id role) r roles" mgr']
    by (simp add: a dom_update)
qed

lemma collection_get_absent:
  "i \<notin> fst ` set al \<Longrightarrow> collection_get al (Some i) = None"
  by (simp add: collection_get_def map_of_eq_None_iff)

lemma fetch_request_absent:
  assumes "api (guild_id (manager_guild mgr)) = Inr data" and "i \<noteq> []"
    and "i \<notin> role_data_id ` set data"
  shows "fst (fetch_request sa api (Some i) cf mgr) = Inr Null"
    and "fst (snd (fetch_request sa api (Some i) cf mgr)) = 1"
proof -
  obtain roles mgr' where a: "add_roles sa cf data [] mgr = (roles, mgr')"
    by (cases "add_roles sa cf data [] mgr")
  have "fst ` set roles = role_data_id ` set data"
    using add_roles_keys [of sa cf data "[]" mgr] by (simp add: a)
  with assms(3) have "collection_get roles (Some i) = None" by (simp add: collection_get_absent)
  then show "fst (fetch_request sa api (Some i) cf mgr) = Inr Null"
    and "fst (snd (fetch_request sa api (Some i) cf mgr)) = 1"
    using assms(1,2) by (simp_all add: fetch_request_def a id_truthy_def)
qed

lemma fetch_request_all:
  assumes "api (guild_id (manager_guild mgr)) = Inr data" and "\<not> id_truthy ident"
  shows "fst (fetch_request sa api ident cf mgr) = Inr (Roles (fst (add_roles sa cf data [] mgr)))"
  using assms by (simp add: fetch_request_def split: prod.splits)

text \<open>
  C10. With an id and \<open>force\<close> false, a role cached under the id is the result and no
  API request is made. With an id that is not the id of any role of the fetched data,
  the promise resolves to \<open>null\<close>; it does not reject. With no id the promise resolves
  to the collection built from the fetched data, whose keys are the ids of the data.
\<close>

theorem fetch_resolves:
  "(ident = Some i \<and> i \<noteq> [] \<and> \<not> force \<and> map_of (cache mgr) i = Some r \<longrightarrow>
      fetch sa api ident cf force mgr = (Inr (Role r), 0, mgr)) \<and>
   (ident = Some i \<and> i \<noteq> [] \<and> (force \<or> map_of (cache mgr) i = None) \<and>
    api (guild_id (manager_guild mgr)) = Inr data \<and> i \<notin> role_data_id ` set data \<longrightarrow>
      fst (fetch sa api ident cf force mgr) = Inr Null) \<and>
   (\<not> id_truthy ident \<and> api (guild_id (manager_guild mgr)) = Inr data \<longrightarrow>
      fst (fetch sa api ident cf force mgr) = Inr (Roles (fst (add_roles sa cf data [] mgr))) \<and>
      fst ` set (fst (add_roles sa cf data [] mgr)) = role_data_id ` set data)"
proof (intro conjI impI)
  assume "ident = Some i \<and> i \<noteq> [] \<and> \<not> force \<and> map_of (cache mgr) i = Some r"
  then show "fetch sa api ident cf force mgr = (Inr (Role r), 0, mgr)"
    by (simp add: fetch_def id_truthy_def collection_get_def)
next
  assume a: "ident = Some i \<and> i \<noteq> [] \<and> (force \<or> map_of (cache mgr) i = None) \<and>
    api (guild_id (manager_guild mgr)) = Inr data \<and> i \<notin> role_data_id ` set data"
  then have "fetch sa api ident cf force mgr = fetch_request sa api (Some i) cf mgr"
    by (auto simp add: fetch_def collection_get_def)
  with a show "fst (fetch sa api ident cf force mgr) = Inr Null"
    by (simp add: fetch_request_absent(1))
next
  assume a: "\<not> id_truthy ident \<and> api (guild_id (manager_guild mgr)) = Inr data"
  then have "fetch sa api ident cf force mgr = fetch_request sa api ident cf mgr"
    by (simp add: fetch_def)
  with a show "fst (fetch sa api ident cf force mgr) = Inr (Roles (fst (add_roles sa cf data [] mgr)))"
    by (simp add: fetch_request_all)
next
  show "fst ` set (fst (add_roles sa cf data [] mgr)) = role_data_id ` set data"
    using add_roles_keys [of sa cf data "[]" mgr] by simp
qed

theorem fetch_resolves_witness:
  "fetch wrap_add api_two (Some ''10'') True False manager0 = (Inr (Role ''cached-10''), 0, manager0) \<and>
   fst (fetch wrap_add api_two (Some ''12'') True False manager0) = Inr Null \<and>
   fst (fetch wrap_add api_two None True False manager0) =
     Inr (Roles [(''10'', ''role-10''), (''11'', ''role-11'')])"
proof -
  have c: "map_of (cache manager0) ''10'' = Some ''cached-10''"
          "map_of (cache manager0) ''12'' = None"
    by (simp_all add: manager0_def)
  have d: "api_two (guild_id (manager_guild manager0)) = Inr two_roles"
    by (simp add: api_two_def)
  have n: "''12'' \<notin> role_data_id ` set two_roles"
    by (simp add: two_roles_def)
  have r: "fst (add_roles wrap_add True two_roles [] manager0)
             = [(''10'', ''role-10''), (''11'', ''role-11'')]"
    by (simp add: add_def wrap_add_def two_roles_def)
  have a1: "fetch wrap_add api_two (Some ''10'') True False manager0 = (Inr (Role ''cached-10''), 0, manager0)"
    using fetch_resolves [where ident = "Some ''10''" and i = "''10''" and force = False and mgr = manager0
        and r = "''cached-10''" and sa = wrap_add and api = api_two and cf = True] c(1)
    by simp
  have a2: "fst (fetch wrap_add api_two (Some ''12'') True False manager0) = Inr Null"
    using fetch_resolves [where ident = "Some ''12''" and i = "''12''" and force = False and mgr = manager0
        and sa = wrap_add and api = api_two and cf = True and data = two_roles] c(2) d n
    by simp
  have a3: "fst (fetch wrap_add api_two None True False manager0) =
              Inr (Roles [(''10'', ''role-10''), (''11'', ''role-11'')])"
    using fetch_resolves [where ident = None and force = False and mgr = manager0
        and sa = wrap_add and api = api_two and cf = True and data = two_roles] d r
    by (simp add: id_truthy_def)
  show ?thesis using a1 a2 a3 by simp
qed

end
